theory Spec2Isabelle
  imports Complex_Main
begin

section \<open>Python values and exceptions\<close>

text \<open>
  Every exception the two modules can raise is a value. \<open>UnboundLocalError v\<close> is
  Python's error for reading the local variable \<open>v\<close> before any assignment to it,
  \<open>PyException msg\<close> is \<^verbatim>\<open>raise Exception(msg)\<close>, \<open>UsageError u\<close> is
  \<^verbatim>\<open>parser.error(msg)\<close> of argparse (usage text on stderr, then exit status 2) with
  the message that \<open>u\<close> stands for, and
  \<open>SystemExit n\<close> is \<^verbatim>\<open>parser.exit(n)\<close>. The remaining constructors are errors
  of the libraries the code calls.
\<close>

datatype usage =
    Required "string list"
  | Unrecognized "string list"
  | ExpectedOneArgument string
  | IgnoredExplicitArgument string string
  | AmbiguousOption string "string list"

datatype pyerror =
    AssertionError
  | UnboundLocalError string
  | PyException string
  | ValueError string
  | IndexError
  | OSError string
  | ImageFileError string
  | UsageError usage
  | SystemExit int

fun exit_status :: "pyerror \<Rightarrow> int" where
  "exit_status (UsageError m) = 2"
| "exit_status (SystemExit n) = n"
| "exit_status e = 1"

text \<open>Truth value of a Python string: only the empty string is false.\<close>

definition truthy_str :: "string \<Rightarrow> bool" where
  "truthy_str s = (s \<noteq> [])"

text \<open>The statement \<^verbatim>\<open>assert(e)\<close>, given the truth value of \<open>e\<close>.\<close>

definition py_assert :: "bool \<Rightarrow> pyerror + unit" where
  "py_assert b = (if b then Inr () else Inl AssertionError)"

section \<open>os.path (posixpath)\<close>

text \<open>\<^verbatim>\<open>p.rfind(c)\<close>: index of the last occurrence of \<open>c\<close>, or \<open>-1\<close>.\<close>

definition rfind :: "char \<Rightarrow> string \<Rightarrow> int" where
  "rfind c p =
     (if c \<in> set p then int (length p) - 1 - int (length (takeWhile (\<lambda>x. x \<noteq> c) (rev p)))
      else - 1)"

text \<open>\<^verbatim>\<open>s.rstrip('/')\<close>.\<close>

definition rstrip_sep :: "string \<Rightarrow> string" where
  "rstrip_sep s = rev (dropWhile (\<lambda>x. x = CHR ''/'') (rev s))"

text \<open>
  \<^verbatim>\<open>os.path.split\<close>: cut after the last slash; trailing slashes are stripped from the
  head unless the head consists of slashes only.
\<close>

definition os_path_split :: "string \<Rightarrow> string \<times> string" where
  "os_path_split p =
     (let i = nat (rfind CHR ''/'' p + 1);
          head = take i p;
          tail = drop i p;
          head' = (if head \<noteq> [] \<and> head \<noteq> replicate (length head) CHR ''/''
                   then rstrip_sep head else head)
      in (head', tail))"

definition os_path_dirname :: "string \<Rightarrow> string" where
  "os_path_dirname p =
     (let i = nat (rfind CHR ''/'' p + 1);
          head = take i p
      in if head \<noteq> [] \<and> head \<noteq> replicate (length head) CHR ''/''
         then rstrip_sep head else head)"

text \<open>
  The loop of \<^verbatim>\<open>genericpath._splitext\<close> that skips leading dots: from index \<open>i\<close> up
  to the last dot \<open>d\<close> (exclusive), is there a character other than a dot?
\<close>

function splitext_scan :: "string \<Rightarrow> nat \<Rightarrow> nat \<Rightarrow> bool" where
  "splitext_scan p i d =
     (if i < d then (if p ! i \<noteq> CHR ''.'' then True else splitext_scan p (Suc i) d)
      else False)"
  by pat_completeness auto
termination
  by (relation "measure (\<lambda>(p, i, d). d - i)") auto

definition os_path_splitext :: "string \<Rightarrow> string \<times> string" where
  "os_path_splitext p =
     (let sepIndex = rfind CHR ''/'' p;
          dotIndex = rfind CHR ''.'' p
      in if dotIndex > sepIndex \<and> splitext_scan p (nat (sepIndex + 1)) (nat dotIndex)
         then (take (nat dotIndex) p, drop (nat dotIndex) p)
         else (p, []))"

text \<open>\<^verbatim>\<open>os.path.join(a, b)\<close> with two arguments.\<close>

definition os_path_join :: "string \<Rightarrow> string \<Rightarrow> string" where
  "os_path_join a b =
     (if b \<noteq> [] \<and> hd b = CHR ''/'' then b
      else if a = [] \<or> last a = CHR ''/'' then a @ b
      else a @ ''/'' @ b)"

section \<open>numpy arrays\<close>

text \<open>
  Arrays of at most two dimensions, a two-dimensional array as the list of its rows.
  numpy's arrays are rectangular: every row of an \<open>Arr2\<close> has the same length.
\<close>

datatype ndarray = Arr0 real | Arr1 "real list" | Arr2 "real list list"

text \<open>\<^verbatim>\<open>np.rint\<close>: to the nearest integer, a tie to the even neighbour.\<close>

definition rint :: "real \<Rightarrow> real" where
  "rint x =
     (let f = \<lfloor>x\<rfloor>; d = x - of_int f
      in if d < 1 / 2 then of_int f
         else if 1 / 2 < d then of_int (f + 1)
         else if even f then of_int f else of_int (f + 1))"

fun np_rint :: "ndarray \<Rightarrow> ndarray" where
  "np_rint (Arr0 x) = Arr0 (rint x)"
| "np_rint (Arr1 v) = Arr1 (map rint v)"
| "np_rint (Arr2 m) = Arr2 (map (map rint) m)"

text \<open>Rows and columns exchanged; column \<open>j\<close> of the argument is row \<open>j\<close> of the result.\<close>

fun transpose_rows :: "'a list list \<Rightarrow> 'a list list" where
  "transpose_rows [] = []"
| "transpose_rows (r # rs) = map (\<lambda>j. map (\<lambda>row. row ! j) (r # rs)) [0..<length r]"

text \<open>\<^verbatim>\<open>np.transpose\<close> reverses the axes, so it changes two-dimensional arrays only.\<close>

fun np_transpose :: "ndarray \<Rightarrow> ndarray" where
  "np_transpose (Arr0 x) = Arr0 x"
| "np_transpose (Arr1 v) = Arr1 v"
| "np_transpose (Arr2 m) = Arr2 (transpose_rows m)"

text \<open>
  \<^verbatim>\<open>np.c_[a, b]\<close> makes every item two-dimensional (a scalar a 1-by-1 array, a
  one-dimensional array a column) and concatenates along the second axis; the row
  counts must agree.
\<close>

fun as_columns :: "ndarray \<Rightarrow> real list list" where
  "as_columns (Arr0 x) = [[x]]"
| "as_columns (Arr1 v) = map (\<lambda>x. [x]) v"
| "as_columns (Arr2 m) = m"

definition np_c :: "ndarray \<Rightarrow> ndarray \<Rightarrow> pyerror + real list list" where
  "np_c a b =
     (let A = as_columns a; B = as_columns b
      in if length A = length B then Inr (map2 (@) A B)
         else Inl (ValueError ''all the input array dimensions except for the concatenation axis must match exactly''))"

text \<open>
  What \<^verbatim>\<open>np.loadtxt\<close> returns for a file that holds a table of numbers, given as the
  list of its rows: the axes of length one are removed, so a single value is a
  0-dimensional array, and a single row or a single column is a 1-dimensional array.
\<close>

definition loadtxt_of_table :: "real list list \<Rightarrow> ndarray" where
  "loadtxt_of_table rows =
     (case rows of
        [] \<Rightarrow> Arr1 []
      | [r] \<Rightarrow> (case r of [x] \<Rightarrow> Arr0 x | _ \<Rightarrow> Arr1 r)
      | _ \<Rightarrow> if list_all (\<lambda>r. length r = 1) rows then Arr1 (map hd rows) else Arr2 rows)"

section \<open>dwipi.py: the class DWI\<close>

text \<open>
  What the host gives: \<^verbatim>\<open>os.path.exists\<close>, \<^verbatim>\<open>nib.load\<close> and
  \<^verbatim>\<open>np.loadtxt\<close>, each of the last two either raising or returning. A loaded image
  carries its header and its data object, which \<^verbatim>\<open>np.array\<close> reads (or fails to).
  Voxel data is a shape with the flat list of values.
\<close>

type_synonym voxels = "nat list \<times> real list"

datatype nifti_image = NiftiImage (header: string) (dataobj: "pyerror + voxels")

record host =
  path_exists :: "string \<Rightarrow> bool"
  nib_load :: "string \<Rightarrow> pyerror + nifti_image"
  np_loadtxt :: "string \<Rightarrow> pyerror + ndarray"

text \<open>An instance: each attribute is \<open>None\<close> until it is assigned.\<close>

record DWI =
  hdr :: "nifti_image option"
  img :: "voxels option"
  grad :: "real list list option"

definition new_DWI :: DWI where
  "new_DWI = \<lparr>hdr = None, img = None, grad = None\<rparr>"

text \<open>The two assertions of \<^verbatim>\<open>__init__\<close>, each on a string literal.\<close>

definition bval_bvec_guard :: "pyerror + unit" where
  "bval_bvec_guard = py_assert (truthy_str ''Unable to locate BVAL or BVEC files'')"

definition file_guard :: "pyerror + unit" where
  "file_guard = py_assert (truthy_str ''File in path not found. Please locate file and try again'')"

text \<open>
  The \<^verbatim>\<open>if\<close>/\<^verbatim>\<open>else\<close> of \<^verbatim>\<open>__init__\<close>: the instance after it, and the
  local variable \<open>fName\<close>, which only the first branch assigns.
\<close>

definition DWI_init_branches :: "host \<Rightarrow> string \<Rightarrow> pyerror + DWI \<times> string option" where
  "DWI_init_branches h imPath =
     (if path_exists h imPath then
        (case nib_load h imPath of
           Inl e \<Rightarrow> Inl e
         | Inr nii \<Rightarrow>
            (case dataobj nii of
               Inl e \<Rightarrow> Inl e
             | Inr data \<Rightarrow>
                (let self = new_DWI\<lparr>hdr := Some nii, img := Some data\<rparr>;
                     (path, file) = os_path_split imPath;
                     fName = fst (os_path_splitext file);
                     bvalPath = os_path_join path (fName @ ''.bval'');
                     bvecPath = os_path_join path (fName @ ''.bvec'')
                 in if path_exists h bvalPath \<and> path_exists h bvecPath then
                      (case np_loadtxt h bvecPath of
                         Inl e \<Rightarrow> Inl e
                       | Inr bvecs \<Rightarrow>
                          (case np_loadtxt h bvalPath of
                             Inl e \<Rightarrow> Inl e
                           | Inr bv \<Rightarrow>
                              (case np_c (np_transpose bvecs) (np_rint bv) of
                                 Inl e \<Rightarrow> Inl e
                               | Inr g \<Rightarrow> Inr (self\<lparr>grad := Some g\<rparr>, Some fName))))
                    else
                      (case bval_bvec_guard of
                         Inl e \<Rightarrow> Inl e
                       | Inr u \<Rightarrow> Inr (self, Some fName)))))
      else
        (case file_guard of
           Inl e \<Rightarrow> Inl e
         | Inr u \<Rightarrow> Inr (new_DWI, None)))"

text \<open>
  \<^verbatim>\<open>DWI(imPath)\<close>: the branches, then the \<^verbatim>\<open>print\<close>, which reads \<open>fName\<close>.
  The result is the instance with the lines printed.
\<close>

definition DWI_init :: "host \<Rightarrow> string \<Rightarrow> pyerror + DWI \<times> string list" where
  "DWI_init h imPath =
     (case DWI_init_branches h imPath of
        Inl e \<Rightarrow> Inl e
      | Inr (self, fName) \<Rightarrow>
         (case fName of
            None \<Rightarrow> Inl (UnboundLocalError ''fName'')
          | Some f \<Rightarrow> Inr (self, [''Image '' @ f @ ''.nii loaded successfully''])))"

text \<open>The companion path \<^verbatim>\<open>__init__\<close> derives for an extension, for stating properties.\<close>

definition companion :: "string \<Rightarrow> string \<Rightarrow> string" where
  "companion imPath ext =
     os_path_join (fst (os_path_split imPath))
       (fst (os_path_splitext (snd (os_path_split imPath))) @ ext)"

definition base_name :: "string \<Rightarrow> string" where
  "base_name imPath = fst (os_path_splitext (snd (os_path_split imPath)))"

subsection \<open>createTensorOrder\<close>

text \<open>\<^verbatim>\<open>a - k\<close> on a two-dimensional integer array.\<close>

definition np_sub :: "int list list \<Rightarrow> int \<Rightarrow> int list list" where
  "np_sub a k = map (map (\<lambda>x. x - k)) a"

text \<open>The local variables of the method: unassigned until a branch assigns them.\<close>

record tensor_locals =
  cnt :: "int list option"
  ind :: "int list list option"

text \<open>
  The method takes the instance and the order, and gives the instance back with what it
  returns or raises. The two \<^verbatim>\<open>if\<close> statements run one after the other.
\<close>

definition createTensorOrder :: "DWI \<Rightarrow> int \<Rightarrow> DWI \<times> (pyerror + int list \<times> int list list)" where
  "createTensorOrder self order =
     (let l0 = \<lparr>cnt = None, ind = None\<rparr>;
          l1 = (if order = 2
                then l0\<lparr>cnt := Some [1, 2, 2, 1, 2, 1],
                        ind := Some (np_sub [[1, 1], [1, 2], [1, 3], [2, 2], [2, 3], [3, 3]] 1)\<rparr>
                else l0);
          l2 = (if order = 4
                then l1\<lparr>cnt := Some [1, 4, 4, 6, 12, 6, 4, 12, 12, 4, 1, 4, 6, 4, 1],
                        ind := Some (np_sub
                          [[1,1,1,1], [1,1,1,2], [1,1,1,3], [1,1,2,2], [1,1,2,3], [1,1,3,3],
                           [1,2,2,2], [1,2,2,3], [1,2,3,3], [1,3,3,3], [2,2,2,2], [2,2,2,3],
                           [2,2,3,3], [2,3,3,3], [3,3,3,3]] 1)\<rparr>
                else l1)
      in (self,
          case cnt l2 of
            None \<Rightarrow> Inl (UnboundLocalError ''cnt'')
          | Some c \<Rightarrow>
             (case ind l2 of
                None \<Rightarrow> Inl (UnboundLocalError ''ind'')
              | Some i \<Rightarrow> Inr (c, i))))"

section \<open>argparse\<close>

text \<open>
  The part of the standard library's argparse that \<^verbatim>\<open>pydesigner.py\<close> uses, after
  CPython 3.11: actions that store one argument, \<^verbatim>\<open>store_true\<close> flags and the help
  action; prefix characters \<^verbatim>\<open>-\<close>; abbreviations of long options allowed.
  \<open>dflt = None\<close> is the default \<^verbatim>\<open>SUPPRESS\<close>.
\<close>

datatype argval = PyNone | PyBool bool | PyStr string | PyList "string list"

datatype action_kind = Store | StoreTrue | Help

record arg_action =
  option_strings :: "string list"
  dest :: string
  kind :: action_kind
  dflt :: "argval option"

type_synonym namespace = "string \<Rightarrow> argval option"

text \<open>
  The destination of an optional argument: its first long option string, or else its
  first option string, without the leading dashes and with \<^verbatim>\<open>-\<close> replaced by
  \<^verbatim>\<open>_\<close>.
\<close>

definition dest_of :: "string list \<Rightarrow> string" where
  "dest_of opts =
     (let long = filter (\<lambda>s. length s > 1 \<and> s ! 1 = CHR ''-'') opts;
          s = (if long \<noteq> [] then hd long else hd opts)
      in map (\<lambda>c. if c = CHR ''-'' then CHR ''_'' else c) (dropWhile (\<lambda>c. c = CHR ''-'') s))"

definition add_positional :: "string \<Rightarrow> arg_action" where
  "add_positional d = \<lparr>option_strings = [], dest = d, kind = Store, dflt = Some PyNone\<rparr>"

definition add_store :: "string list \<Rightarrow> argval \<Rightarrow> arg_action" where
  "add_store opts d = \<lparr>option_strings = opts, dest = dest_of opts, kind = Store, dflt = Some d\<rparr>"

definition add_store_true :: "string list \<Rightarrow> arg_action" where
  "add_store_true opts =
     \<lparr>option_strings = opts, dest = dest_of opts, kind = StoreTrue, dflt = Some (PyBool False)\<rparr>"

definition help_action :: arg_action where
  "help_action =
     \<lparr>option_strings = [''-h'', ''--help''], dest = ''==SUPPRESS=='', kind = Help, dflt = None\<rparr>"

text \<open>The name of an action in an error message.\<close>

fun join_names :: "string list \<Rightarrow> string" where
  "join_names [] = []"
| "join_names [s] = s"
| "join_names (s # t # r) = s @ ''/'' @ join_names (t # r)"

definition action_name :: "arg_action \<Rightarrow> string" where
  "action_name a = (if option_strings a = [] then dest a else join_names (option_strings a))"

text \<open>The option strings of a parser with their actions, in the order they were added.\<close>

definition option_table :: "arg_action list \<Rightarrow> (string \<times> arg_action) list" where
  "option_table acts = concat (map (\<lambda>a. map (\<lambda>s. (s, a)) (option_strings a)) acts)"

definition lookup_option :: "arg_action list \<Rightarrow> string \<Rightarrow> arg_action option" where
  "lookup_option acts s = map_of (option_table acts) s"

definition startswith :: "string \<Rightarrow> string \<Rightarrow> bool" where
  "startswith s pre = (take (length pre) s = pre)"

text \<open>\<^verbatim>\<open>s.partition('=')\<close>: the part before the first \<^verbatim>\<open>=\<close>, and the part after it if there is one.\<close>

definition partition_eq :: "string \<Rightarrow> string \<times> string option" where
  "partition_eq s =
     (takeWhile (\<lambda>c. c \<noteq> CHR ''='') s,
      if CHR ''='' \<in> set s then Some (tl (dropWhile (\<lambda>c. c \<noteq> CHR ''='') s)) else None)"

definition is_digit :: "char \<Rightarrow> bool" where
  "is_digit c = (c \<in> set ''0123456789'')"

text \<open>
  The regular expression \<^verbatim>\<open>^-\d+$|^-\d*\.\d+$\<close> on ASCII strings; \<^verbatim>\<open>$\<close> also
  matches just before a final newline.
\<close>

definition negative_number :: "string \<Rightarrow> bool" where
  "negative_number s =
     (case s of
        [] \<Rightarrow> False
      | c # r \<Rightarrow>
          c = CHR ''-'' \<and>
          (let body = (if r \<noteq> [] \<and> last r = CHR 0x0A then butlast r else r);
               ds = takeWhile is_digit body;
               rest = dropWhile is_digit body
           in (ds \<noteq> [] \<and> rest = []) \<or>
              (case rest of
                 [] \<Rightarrow> False
               | d # fr \<Rightarrow> d = CHR ''.'' \<and> fr \<noteq> [] \<and> list_all is_digit fr)))"

text \<open>
  \<^verbatim>\<open>_get_option_tuples\<close>, for an argument of at least two characters that starts with
  a dash: the interpretations as an abbreviated long option, or as a short option with
  its argument attached. A tuple is the action, its option string, whether the
  separator is \<^verbatim>\<open>=\<close>, and the explicit argument.
\<close>

definition get_option_tuples ::
  "arg_action list \<Rightarrow> string \<Rightarrow> (arg_action \<times> string \<times> bool \<times> string option) list" where
  "get_option_tuples acts arg =
     (if arg ! 1 = CHR ''-'' then
        (let (pre, expl) = partition_eq arg
         in map (\<lambda>(s, a). (a, s, expl \<noteq> None, expl))
              (filter (\<lambda>(s, a). startswith s pre) (option_table acts)))
      else
        concat (map (\<lambda>(s, a).
                  if s = take 2 arg then [(a, s, False, Some (drop 2 arg))]
                  else if startswith s arg then [(a, s, False, None)]
                  else [])
                (option_table acts)))"

text \<open>
  \<^verbatim>\<open>_parse_optional\<close>: \<open>None\<close> for a positional argument, else the option tuple (its
  action \<open>None\<close> for an option the parser does not know).
\<close>

definition parse_optional ::
  "arg_action list \<Rightarrow> string \<Rightarrow>
     pyerror + (arg_action option \<times> string \<times> bool \<times> string option) option" where
  "parse_optional acts arg =
     (if arg = [] then Inr None
      else if hd arg \<noteq> CHR ''-'' then Inr None
      else
        (case lookup_option acts arg of
           Some a \<Rightarrow> Inr (Some (Some a, arg, False, None))
         | None \<Rightarrow>
            if length arg = 1 then Inr None
            else
              (let (opt, expl) = partition_eq arg;
                   exact = (if expl = None then None else lookup_option acts opt)
               in case exact of
                    Some a \<Rightarrow> Inr (Some (Some a, opt, True, expl))
                  | None \<Rightarrow>
                     (let tuples = get_option_tuples acts arg
                      in if length tuples > 1
                         then Inl (UsageError (AmbiguousOption arg (map (\<lambda>(a, s, sep, e). s) tuples)))
                         else if length tuples = 1
                         then Inr (Some (case hd tuples of (a, s, sep, e) \<Rightarrow> (Some a, s, sep, e)))
                         else if negative_number arg then Inr None
                         else if CHR '' '' \<in> set arg then Inr None
                         else Inr (Some (None, arg, False, None))))))"

text \<open>
  The argument strings classified, as the pattern of \<^verbatim>\<open>_parse_known_args\<close>: \<open>TA\<close> an
  argument, \<open>TD\<close> the first \<^verbatim>\<open>--\<close> (everything after it is an argument), \<open>TO\<close> an
  option with its raw string and its option tuple.
\<close>

datatype tok =
    TA string
  | TD
  | TO string "arg_action option" string bool "string option"

fun is_TO :: "tok \<Rightarrow> bool" where
  "is_TO (TO s a opt sep e) = True"
| "is_TO t = False"

fun is_TD :: "tok \<Rightarrow> bool" where
  "is_TD TD = True"
| "is_TD t = False"

fun raw :: "tok \<Rightarrow> string" where
  "raw (TA s) = s"
| "raw TD = ''--''"
| "raw (TO s a opt sep e) = s"

fun classify :: "arg_action list \<Rightarrow> string list \<Rightarrow> pyerror + tok list" where
  "classify acts [] = Inr []"
| "classify acts (s # ss) =
     (if s = ''--'' then Inr (TD # map TA ss)
      else
        (case parse_optional acts s of
           Inl e \<Rightarrow> Inl e
         | Inr r \<Rightarrow>
            (case classify acts ss of
               Inl e \<Rightarrow> Inl e
             | Inr ts \<Rightarrow>
                Inr ((case r of None \<Rightarrow> TA s | Some (a, opt, sep, e) \<Rightarrow> TO s a opt sep e) # ts))))"

text \<open>
  \<^verbatim>\<open>_get_values\<close> for an action that takes one argument: a positional loses its first
  \<^verbatim>\<open>--\<close>; a single string is the value, anything else the list.
\<close>

definition get_values :: "arg_action \<Rightarrow> string list \<Rightarrow> argval" where
  "get_values a strs =
     (let r = (if option_strings a = [] then remove1 ''--'' strs else strs)
      in case r of [v] \<Rightarrow> PyStr v | _ \<Rightarrow> PyList r)"

definition take_action :: "arg_action \<Rightarrow> string list \<Rightarrow> namespace \<Rightarrow> pyerror + namespace" where
  "take_action a strs ns =
     (case kind a of
        Store \<Rightarrow> Inr (ns(dest a \<mapsto> get_values a strs))
      | StoreTrue \<Rightarrow> Inr (ns(dest a \<mapsto> PyBool True))
      | Help \<Rightarrow> Inl (SystemExit 0))"

fun take_actions :: "(arg_action \<times> string list) list \<Rightarrow> namespace \<Rightarrow> pyerror + namespace" where
  "take_actions [] ns = Inr ns"
| "take_actions ((a, strs) # r) ns =
     (case take_action a strs ns of Inl e \<Rightarrow> Inl e | Inr ns' \<Rightarrow> take_actions r ns')"

text \<open>
  \<^verbatim>\<open>consume_optional\<close> without an explicit argument: an action that stores needs an
  argument next, a flag takes nothing. The result is the actions to take with their
  argument strings, the strings to add to the extras, and how many of the following
  strings were consumed.
\<close>

definition opt_plain ::
  "arg_action \<Rightarrow> tok list \<Rightarrow> pyerror + (arg_action \<times> string list) list \<times> string list \<times> nat" where
  "opt_plain a ts =
     (if kind a = Store then
        (case ts of
           TA s # r \<Rightarrow> Inr ([(a, [s])], [], 1)
         | _ \<Rightarrow> Inl (UsageError (ExpectedOneArgument (action_name a))))
      else Inr ([(a, [])], [], 0))"

text \<open>
  \<^verbatim>\<open>consume_optional\<close> with an explicit argument \<open>e\<close>: an action that stores takes it;
  a short flag gives way to the short option that \<open>e\<close> starts with, if there is one.
\<close>

function opt_explicit ::
  "arg_action list \<Rightarrow> arg_action \<Rightarrow> string \<Rightarrow> bool \<Rightarrow> string \<Rightarrow> tok list \<Rightarrow>
     pyerror + (arg_action \<times> string list) list \<times> string list \<times> nat" where
  "opt_explicit acts a opt sep e ts =
     (if kind a = Store then Inr ([(a, [e])], [], 0)
      else if opt ! 1 \<noteq> CHR ''-'' \<and> e \<noteq> [] then
        (if sep \<or> hd e = CHR ''-'' then Inl (UsageError (IgnoredExplicitArgument (action_name a) e))
         else
           (case lookup_option acts [hd opt, hd e] of
              None \<Rightarrow> Inr ([(a, [])], [hd opt # e], 0)
            | Some a' \<Rightarrow>
               (case (if tl e = [] then opt_plain a' ts
                      else if hd (tl e) = CHR ''=''
                      then opt_explicit acts a' [hd opt, hd e] True (tl (tl e)) ts
                      else opt_explicit acts a' [hd opt, hd e] False (tl e) ts) of
                  Inl err \<Rightarrow> Inl err
                | Inr (tuples, ex, k) \<Rightarrow> Inr ((a, []) # tuples, ex, k))))
      else Inl (UsageError (IgnoredExplicitArgument (action_name a) e)))"
  by pat_completeness auto
termination
  by (relation "measure (\<lambda>(acts, a, opt, sep, e, ts). length e)") auto

declare opt_explicit.simps [simp del]

text \<open>The number of strings that the pattern \<^verbatim>\<open>(-*A-*)\<close> of a positional matches.\<close>

definition match_one :: "tok list \<Rightarrow> nat option" where
  "match_one ts =
     (let d = length (takeWhile is_TD ts)
      in case drop d ts of
           TA s # r \<Rightarrow> Some (d + 1 + length (takeWhile is_TD r))
         | _ \<Rightarrow> None)"

text \<open>
  \<^verbatim>\<open>consume_positionals\<close>: as many of the pending positionals as the strings at hand
  allow; the result is the positionals still pending and the number of strings consumed.
\<close>

fun consume_positionals ::
  "arg_action list \<Rightarrow> tok list \<Rightarrow> namespace \<Rightarrow> pyerror + arg_action list \<times> namespace \<times> nat" where
  "consume_positionals [] ts ns = Inr ([], ns, 0)"
| "consume_positionals (p # ps) ts ns =
     (case match_one ts of
        None \<Rightarrow> Inr (p # ps, ns, 0)
      | Some k \<Rightarrow>
         (case take_action p (map raw (take k ts)) ns of
            Inl e \<Rightarrow> Inl e
          | Inr ns' \<Rightarrow>
             (case consume_positionals ps (drop k ts) ns' of
                Inl e \<Rightarrow> Inl e
              | Inr (ps', ns'', k') \<Rightarrow> Inr (ps', ns'', k + k'))))"

text \<open>
  The loop of \<^verbatim>\<open>_parse_known_args\<close>, which consumes positionals and options in turn
  until the last option is passed, and the positionals after it. The result is the
  positionals never seen, the namespace and the extras.
\<close>

function (sequential) consume ::
  "arg_action list \<Rightarrow> arg_action list \<Rightarrow> tok list \<Rightarrow> namespace \<Rightarrow> string list \<Rightarrow>
     pyerror + arg_action list \<times> namespace \<times> string list" where
  "consume acts pend [] ns extras = Inr (pend, ns, extras)"
| "consume acts pend (TO s a opt sep e # rest) ns extras =
     (case a of
        None \<Rightarrow> consume acts pend rest ns (extras @ [s])
      | Some act \<Rightarrow>
         (case (case e of None \<Rightarrow> opt_plain act rest
                | Some ex \<Rightarrow> opt_explicit acts act opt sep ex rest) of
            Inl err \<Rightarrow> Inl err
          | Inr (tuples, ex, k) \<Rightarrow>
             (case take_actions tuples ns of
                Inl err \<Rightarrow> Inl err
              | Inr ns' \<Rightarrow> consume acts pend (drop k rest) ns' (extras @ ex))))"
| "consume acts pend (t # rest) ns extras =
     (case consume_positionals pend (t # rest) ns of
        Inl err \<Rightarrow> Inl err
      | Inr (pend', ns', k) \<Rightarrow>
         if list_ex is_TO rest then
           (if k > 0 then consume acts pend' (drop (k - 1) rest) ns' extras
            else consume acts pend' (dropWhile (\<lambda>x. \<not> is_TO x) rest) ns'
                   (extras @ map raw (t # takeWhile (\<lambda>x. \<not> is_TO x) rest)))
         else Inr (pend', ns', extras @ map raw (drop k (t # rest))))"
  by pat_completeness auto
termination
  by (relation "measure (\<lambda>(acts, pend, ts, ns, extras). length ts)")
    (auto simp add: le_imp_less_Suc length_dropWhile_le)

text \<open>The namespace of the defaults, set for each destination not yet present.\<close>

definition defaults :: "arg_action list \<Rightarrow> namespace" where
  "defaults acts =
     fold (\<lambda>a ns. case dflt a of
                     None \<Rightarrow> ns
                   | Some d \<Rightarrow> (if ns (dest a) = None then ns(dest a \<mapsto> d) else ns))
       acts Map.empty"

text \<open>
  \<^verbatim>\<open>parse_args\<close>: a positional never seen is a required argument that is missing;
  extras are unrecognized arguments.
\<close>

definition parse_args :: "arg_action list \<Rightarrow> string list \<Rightarrow> pyerror + namespace" where
  "parse_args acts argv =
     (case classify acts argv of
        Inl e \<Rightarrow> Inl e
      | Inr ts \<Rightarrow>
         (case consume acts (filter (\<lambda>a. option_strings a = []) acts) ts (defaults acts) [] of
            Inl e \<Rightarrow> Inl e
          | Inr (pend, ns, extras) \<Rightarrow>
             if pend \<noteq> [] then Inl (UsageError (Required (map action_name pend)))
             else if extras \<noteq> [] then Inl (UsageError (Unrecognized extras))
             else Inr ns))"

text \<open>
  How a run of the parser can end without a namespace: with the help text and exit
  status 0, or with a usage error. And what the loop keeps true of the dataset argument
  \<^verbatim>\<open>dwi\<close>: it is still pending, or the namespace has a value for it taken from the
  argument strings.
\<close>

abbreviation parser_exit :: "pyerror \<Rightarrow> bool" where
  "parser_exit e \<equiv> (e = SystemExit 0 \<or> (\<exists>u. e = UsageError u))"

abbreviation has_dataset :: "namespace \<Rightarrow> bool" where
  "has_dataset ns \<equiv> (\<exists>v. ns ''dwi'' = Some v \<and> v \<noteq> PyNone)"

abbreviation dataset_pending :: "arg_action list \<Rightarrow> namespace \<Rightarrow> bool" where
  "dataset_pending pend ns \<equiv>
     (pend = [add_positional ''dwi''] \<or> (pend = [] \<and> has_dataset ns))"

section \<open>pydesigner.py\<close>

text \<open>The parser: the help action that argparse adds, then the arguments as the module adds them.\<close>

definition parser :: "arg_action list" where
  "parser =
     [help_action,
      add_positional ''dwi'',
      add_store [''-o'', ''--output''] PyNone,
      add_store_true [''-s'', ''--standard''],
      add_store_true [''--denoise''],
      add_store [''--extent''] (PyStr ''5,5,5''),
      add_store_true [''--eddy''],
      add_store_true [''--b1correct''],
      add_store_true [''--scaleb0median''],
      add_store_true [''--smooth''],
      add_store_true [''-d'', ''--DTI''],
      add_store_true [''-k'', ''--DKI''],
      add_store_true [''-w'', ''--WMTI''],
      add_store_true [''--kcumulants''],
      add_store_true [''--mask''],
      add_store [''--fit_constraints''] (PyStr ''0,1,0''),
      add_store_true [''--rpe_none''],
      add_store [''--rpe_pair''] PyNone,
      add_store [''--rpe_all''] PyNone,
      add_store [''--pe_dir''] PyNone]"

text \<open>
  Argument lists that give no dataset and do not ask for help: each argument is an
  option string of the parser other than \<^verbatim>\<open>-h\<close> and \<^verbatim>\<open>--help\<close>, and an option that
  stores a value is followed by its value, which does not start with a dash (or is the
  last argument, its value missing).
\<close>

fun options_only :: "string list \<Rightarrow> bool" where
  "options_only [] = True"
| "options_only (s # rest) =
     (case lookup_option parser s of
        None \<Rightarrow> False
      | Some a \<Rightarrow>
         (case kind a of
            StoreTrue \<Rightarrow> options_only rest
          | Store \<Rightarrow>
             (case rest of
                [] \<Rightarrow> True
              | v # rest' \<Rightarrow> (v = [] \<or> hd v \<noteq> CHR ''-'') \<and> options_only rest')
          | Help \<Rightarrow> False))"

text \<open>
  The module from its first statement to its last. The host gives \<^verbatim>\<open>shutil.which\<close>
  and the command line after the program name. The result is the events in the order
  they happened, and the module's globals or the exception that ended it.
\<close>

datatype event = Which string | ParseArgs "string list"

record pydesigner_globals =
  dwidenoise_location :: string
  mrtrix3path :: string
  fsl_location :: string
  fslpath :: string
  args :: namespace

definition mrtrix3_message :: string where
  "mrtrix3_message =
     ''Cannot find mrtrix3, please see https://github.com/m-ama/PyDesigner/wiki to troubleshoot.''"

definition fsl_message :: string where
  "fsl_message =
     ''Cannot find FSL, please see https://github.com/m-ama/PyDesigner/wiki to troubleshoot.''"

definition pydesigner ::
  "(string \<Rightarrow> string option) \<Rightarrow> string list \<Rightarrow> event list \<times> (pyerror + pydesigner_globals)" where
  "pydesigner which argv =
     (case which ''dwidenoise'' of
        None \<Rightarrow> ([Which ''dwidenoise''], Inl (PyException mrtrix3_message))
      | Some dl \<Rightarrow>
         (case which ''fsl'' of
            None \<Rightarrow> ([Which ''dwidenoise'', Which ''fsl''], Inl (PyException fsl_message))
          | Some fl \<Rightarrow>
             ([Which ''dwidenoise'', Which ''fsl'', ParseArgs argv],
              case parse_args parser argv of
                Inl e \<Rightarrow> Inl e
              | Inr ns \<Rightarrow>
                 Inr \<lparr>dwidenoise_location = dl, mrtrix3path = os_path_dirname dl,
                      fsl_location = fl, fslpath = os_path_dirname fl, args = ns\<rparr>)))"

text \<open>Whether argument parsing took place in a run.\<close>

fun is_ParseArgs :: "event \<Rightarrow> bool" where
  "is_ParseArgs (ParseArgs argv) = True"
| "is_ParseArgs e = False"

section \<open>Example hosts\<close>

text \<open>A host with no files at all.\<close>

definition no_files :: host where
  "no_files =
     \<lparr>path_exists = (\<lambda>p. False),
      nib_load = (\<lambda>p. Inl (OSError p)),
      np_loadtxt = (\<lambda>p. Inl (OSError p))\<rparr>"

text \<open>
  A dataset of three volumes: \<^verbatim>\<open>data/scan.nii\<close> with its b-vector table of three rows
  and three columns and its three b-values.
\<close>

definition scan_image :: nifti_image where
  "scan_image = NiftiImage ''scan'' (Inr ([1, 1, 1, 3], [10, 8, 5]))"

definition scan_loader :: "string \<Rightarrow> pyerror + ndarray" where
  "scan_loader p =
     (if p = ''data/scan.bvec'' then Inr (Arr2 [[0, 1, 0], [0, 0, 1], [0, 0, 0]])
      else if p = ''data/scan.bval'' then Inr (Arr1 [0, 999.6, 2000.5])
      else Inl (OSError p))"

definition scan_files :: host where
  "scan_files =
     \<lparr>path_exists = (\<lambda>p. p \<in> set [''data/scan.nii'', ''data/scan.bval'', ''data/scan.bvec'']),
      nib_load = (\<lambda>p. if p = ''data/scan.nii'' then Inr scan_image else Inl (ImageFileError p)),
      np_loadtxt = scan_loader\<rparr>"

text \<open>The same dataset without its b-value file.\<close>

definition scan_without_bval :: host where
  "scan_without_bval =
     \<lparr>path_exists = (\<lambda>p. p \<in> set [''data/scan.nii'', ''data/scan.bvec'']),
      nib_load = (\<lambda>p. if p = ''data/scan.nii'' then Inr scan_image else Inl (ImageFileError p)),
      np_loadtxt = scan_loader\<rparr>"

text \<open>
  A dataset of one volume, \<^verbatim>\<open>data/b0.nii\<close>: its b-vector file has three lines of one
  number each, its b-value file has one number.
\<close>

definition b0_image :: nifti_image where
  "b0_image = NiftiImage ''b0'' (Inr ([1, 1, 1, 1], [10]))"

definition b0_loader :: "string \<Rightarrow> pyerror + ndarray" where
  "b0_loader p =
     (if p = ''data/b0.bvec'' then Inr (loadtxt_of_table [[0], [0], [0]])
      else if p = ''data/b0.bval'' then Inr (loadtxt_of_table [[0]])
      else Inl (OSError p))"

definition one_volume_files :: host where
  "one_volume_files =
     \<lparr>path_exists = (\<lambda>p. p \<in> set [''data/b0.nii'', ''data/b0.bval'', ''data/b0.bvec'']),
      nib_load = (\<lambda>p. if p = ''data/b0.nii'' then Inr b0_image else Inl (ImageFileError p)),
      np_loadtxt = b0_loader\<rparr>"

text \<open>Search paths: one with both toolchains, one without FSL, one without mrtrix3.\<close>

definition which_both :: "string \<Rightarrow> string option" where
  "which_both name =
     (if name = ''dwidenoise'' then Some ''/opt/mrtrix3/bin/dwidenoise''
      else if name = ''fsl'' then Some ''/usr/local/fsl/bin/fsl''
      else None)"

definition which_no_fsl :: "string \<Rightarrow> string option" where
  "which_no_fsl name =
     (if name = ''dwidenoise'' then Some ''/opt/mrtrix3/bin/dwidenoise'' else None)"

definition which_no_mrtrix3 :: "string \<Rightarrow> string option" where
  "which_no_mrtrix3 name =
     (if name = ''fsl'' then Some ''/usr/local/fsl/bin/fsl'' else None)"

section \<open>Properties of the assertions and of the construction\<close>

lemma file_guard_passes: "file_guard = Inr ()"
  by (simp add: file_guard_def py_assert_def truthy_str_def)

lemma companion_guard_passes: "bval_bvec_guard = Inr ()"
  by (simp add: bval_bvec_guard_def py_assert_def truthy_str_def)

text \<open>
  Without the file, the assertion passes and the \<^verbatim>\<open>print\<close> reads \<open>fName\<close>, which was
  never assigned.
\<close>

lemma DWI_init_missing_file:
  "\<not> path_exists h imPath \<Longrightarrow> DWI_init h imPath = Inl (UnboundLocalError ''fName'')"
  by (simp add: DWI_init_def DWI_init_branches_def file_guard_passes)

text \<open>The branches once the image is loaded, in terms of the companion paths.\<close>

lemma branches_loaded:
  assumes "path_exists h imPath" "nib_load h imPath = Inr nii" "dataobj nii = Inr data"
  shows "DWI_init_branches h imPath =
     (if path_exists h (companion imPath ''.bval'') \<and> path_exists h (companion imPath ''.bvec'') then
        (case np_loadtxt h (companion imPath ''.bvec'') of
           Inl e \<Rightarrow> Inl e
         | Inr bvecs \<Rightarrow>
            (case np_loadtxt h (companion imPath ''.bval'') of
               Inl e \<Rightarrow> Inl e
             | Inr bv \<Rightarrow>
                (case np_c (np_transpose bvecs) (np_rint bv) of
                   Inl e \<Rightarrow> Inl e
                 | Inr g \<Rightarrow>
                    Inr (\<lparr>hdr = Some nii, img = Some data, grad = Some g\<rparr>,
                         Some (base_name imPath)))))
      else Inr (\<lparr>hdr = Some nii, img = Some data, grad = None\<rparr>, Some (base_name imPath)))"
  using assms
  unfolding DWI_init_branches_def companion_def base_name_def new_DWI_def Let_def case_prod_beta
  by (simp add: companion_guard_passes split: sum.splits)

text \<open>A failure of the image library is the failure of the construction.\<close>

lemma DWI_init_load_fails:
  "path_exists h imPath \<Longrightarrow> nib_load h imPath = Inl e \<Longrightarrow> DWI_init h imPath = Inl e"
  by (simp add: DWI_init_def DWI_init_branches_def)

text \<open>Three rows of length \<open>n\<close> and \<open>n\<close> values, put together by \<^verbatim>\<open>np.c_\<close>.\<close>

lemma gradient_rows:
  assumes "length gx = n" "length gy = n" "length gz = n" "length bvals = n"
  shows "np_c (np_transpose (Arr2 [gx, gy, gz])) (np_rint (Arr1 bvals)) =
     Inr (map (\<lambda>i. [gx ! i, gy ! i, gz ! i, rint (bvals ! i)]) [0..<n])"
  using assms by (auto simp add: np_c_def Let_def intro!: nth_equalityI)

text \<open>On rows of one length, \<open>transpose_rows\<close> is the transposition of the list library.\<close>

lemma transpose_rows_is_transpose:
  assumes "length gx = n" "length gy = n" "length gz = n"
  shows "transpose_rows [gx, gy, gz] = transpose [gx, gy, gz]"
proof -
  have "\<forall>i<length [gx, gy, gz]. length ([gx, gy, gz] ! i) = n"
    using assms by (simp add: nth_Cons split: nat.splits)
  then have "transpose [gx, gy, gz] =
      map (\<lambda>i. map (\<lambda>j. [gx, gy, gz] ! j ! i) [0..<length [gx, gy, gz]]) [0..<n]"
    by (intro transpose_rectangle) simp_all
  moreover have "[0..<length [gx, gy, gz]] = [0, 1, 2]"
    by (simp add: upt_rec)
  ultimately show ?thesis
    using assms by simp
qed

section \<open>Claims about the construction of a DWI\<close>

text \<open>
  When the image file exists and loads, both companion files exist, the b-vector file
  loads as a two-dimensional array of three rows \<open>gx\<close>, \<open>gy\<close>, \<open>gz\<close> of \<open>n\<close> columns
  and the b-value file as a one-dimensional array of \<open>n\<close> values, the construction
  succeeds and the gradient table has \<open>n\<close> rows of four columns, row \<open>i\<close> being
  \<open>[gx ! i, gy ! i, gz ! i]\<close> followed by the \<open>i\<close>-th b-value rounded to the nearest
  integer: the first three columns are the transposed b-vector table, the fourth column
  is the rounded b-values, in the order of the input.
\<close>

theorem gradient_table_assembled:
  assumes "path_exists h imPath" "nib_load h imPath = Inr nii" "dataobj nii = Inr data"
    and "path_exists h (companion imPath ''.bval'')"
    and "path_exists h (companion imPath ''.bvec'')"
    and "np_loadtxt h (companion imPath ''.bvec'') = Inr (Arr2 [gx, gy, gz])"
    and "length gx = n" "length gy = n" "length gz = n"
    and "np_loadtxt h (companion imPath ''.bval'') = Inr (Arr1 bvals)"
    and "length bvals = n"
  shows "\<exists>g. DWI_init h imPath =
           Inr (\<lparr>hdr = Some nii, img = Some data, grad = Some g\<rparr>,
                [''Image '' @ base_name imPath @ ''.nii loaded successfully'']) \<and>
         g = map (\<lambda>i. [gx ! i, gy ! i, gz ! i, rint (bvals ! i)]) [0..<n] \<and>
         length g = n \<and>
         map length g = replicate n 4 \<and>
         map (take 3) g = transpose [gx, gy, gz] \<and>
         map (\<lambda>row. row ! 3) g = map rint bvals"
proof -
  let ?g = "map (\<lambda>i. [gx ! i, gy ! i, gz ! i, rint (bvals ! i)]) [0..<n]"
  have "DWI_init_branches h imPath =
      Inr (\<lparr>hdr = Some nii, img = Some data, grad = Some ?g\<rparr>, Some (base_name imPath))"
    using assms(4,5)
    by (simp only: branches_loaded[OF assms(1-3)] assms(6,10) gradient_rows[OF assms(7,8,9,11)]
        simp_thms if_True sum.case)
  then have init: "DWI_init h imPath =
      Inr (\<lparr>hdr = Some nii, img = Some data, grad = Some ?g\<rparr>,
           [''Image '' @ base_name imPath @ ''.nii loaded successfully''])"
    by (simp add: DWI_init_def)
  have lens: "map length ?g = replicate n 4"
    by (simp add: map_replicate_const comp_def)
  have "transpose_rows [gx, gy, gz] = map (\<lambda>i. [gx ! i, gy ! i, gz ! i]) [0..<n]"
    using assms(7-9) by simp
  then have cols: "map (take 3) ?g = transpose [gx, gy, gz]"
    using transpose_rows_is_transpose[OF assms(7-9)] by (simp add: comp_def)
  have last_col: "map (\<lambda>row. row ! 3) ?g = map rint bvals"
    using assms(11) by (auto intro!: nth_equalityI)
  show ?thesis
    using init lens cols last_col by simp
qed

theorem gradient_table_assembled_witness:
  "\<exists>g. DWI_init scan_files ''data/scan.nii'' =
         Inr (\<lparr>hdr = Some scan_image, img = Some ([1, 1, 1, 3], [10, 8, 5]), grad = Some g\<rparr>,
              [''Image scan.nii loaded successfully'']) \<and>
       g = [[0, 0, 0, 0], [1, 0, 0, 1000], [0, 1, 0, 2000]]"
  using gradient_table_assembled[of scan_files "''data/scan.nii''" scan_image "([1, 1, 1, 3], [10, 8, 5])"
      "[0, 1, 0]" "[0, 0, 1]" "[0, 0, 0]" 3 "[0, 999.6, 2000.5]"]
  by (simp add: scan_files_def scan_image_def scan_loader_def companion_def base_name_def
      os_path_split_def os_path_splitext_def os_path_join_def rfind_def rstrip_sep_def
      rint_def Let_def upt_rec)

text \<open>
  Files of two or more volumes load in these shapes: a b-vector file of three rows of
  \<open>n\<close> numbers and a b-value file of one row of \<open>n\<close> numbers give the table of \<open>n\<close>
  rows.
\<close>

lemma loadtxt_bvecs:
  assumes "length gx = n" "length gy = n" "length gz = n" "2 \<le> n"
  shows "loadtxt_of_table [gx, gy, gz] = Arr2 [gx, gy, gz]"
  using assms by (auto simp add: loadtxt_of_table_def)

lemma loadtxt_bvals:
  assumes "length bvals = n" "2 \<le> n"
  shows "loadtxt_of_table [bvals] = Arr1 bvals"
  using assms by (cases bvals) (auto simp add: loadtxt_of_table_def split: list.splits)

lemma gradient_table_two_or_more:
  assumes "path_exists h imPath" "nib_load h imPath = Inr nii" "dataobj nii = Inr data"
    and "path_exists h (companion imPath ''.bval'')"
    and "path_exists h (companion imPath ''.bvec'')"
    and "np_loadtxt h (companion imPath ''.bvec'') = Inr (loadtxt_of_table [gx, gy, gz])"
    and "length gx = n" "length gy = n" "length gz = n"
    and "np_loadtxt h (companion imPath ''.bval'') = Inr (loadtxt_of_table [bvals])"
    and "length bvals = n" and "2 \<le> n"
  shows "DWI_init h imPath =
           Inr (\<lparr>hdr = Some nii, img = Some data,
                 grad = Some (map (\<lambda>i. [gx ! i, gy ! i, gz ! i, rint (bvals ! i)]) [0..<n])\<rparr>,
                [''Image '' @ base_name imPath @ ''.nii loaded successfully''])"
  using gradient_table_assembled[OF assms(1-5)
      assms(6)[unfolded loadtxt_bvecs[OF assms(7-9,12)]] assms(7-9)
      assms(10)[unfolded loadtxt_bvals[OF assms(11,12)]] assms(11)]
  by simp

text \<open>
  With one volume the shapes are others: the three b-vector components load as a
  1-dimensional array, which \<^verbatim>\<open>np.transpose\<close> leaves as it is and \<^verbatim>\<open>np.c_\<close> makes a
  column of three rows, and the b-value loads as a 0-dimensional array, which
  \<^verbatim>\<open>np.c_\<close> makes one row. The row counts differ and \<^verbatim>\<open>np.c_\<close> raises.
\<close>

lemma one_volume_shapes:
  "loadtxt_of_table [[x], [y], [z]] = Arr1 [x, y, z] \<and> loadtxt_of_table [[b]] = Arr0 b"
  by (simp add: loadtxt_of_table_def)

lemma one_volume_concatenation:
  "\<exists>msg. np_c (np_transpose (Arr1 [x, y, z])) (np_rint (Arr0 b)) = Inl (ValueError msg)"
  by (simp add: np_c_def)

lemma one_volume_construction:
  assumes "path_exists h imPath" "nib_load h imPath = Inr nii" "dataobj nii = Inr data"
    and "path_exists h (companion imPath ''.bval'')"
    and "path_exists h (companion imPath ''.bvec'')"
    and "np_loadtxt h (companion imPath ''.bvec'') = Inr (loadtxt_of_table [[x], [y], [z]])"
    and "np_loadtxt h (companion imPath ''.bval'') = Inr (loadtxt_of_table [[b]])"
  shows "\<exists>msg. DWI_init h imPath = Inl (ValueError msg)"
proof -
  obtain msg where c:
    "np_c (np_transpose (Arr1 [x, y, z])) (np_rint (Arr0 b)) = Inl (ValueError msg)"
    using one_volume_concatenation by blast
  have "DWI_init_branches h imPath = Inl (ValueError msg)"
    using assms(4,5)
    by (simp only: branches_loaded[OF assms(1-3)] assms(6,7) one_volume_shapes c
        simp_thms if_True sum.case)
  then show ?thesis by (simp add: DWI_init_def)
qed

text \<open>
  C1 (the code does otherwise). The claim is of every dataset whose image and companion
  files exist, and the comment of the code promises a table of \<open>n\<close> rows and four
  columns for \<open>n\<close> volumes. For the dataset of one volume, with its image, its b-vector
  file of three components and its b-value file of one value all present and loaded,
  the construction assembles no table of one row: it raises a ValueError.
\<close>

theorem one_volume_raises:
  "path_exists one_volume_files ''data/b0.nii'' \<and>
   nib_load one_volume_files ''data/b0.nii'' = Inr b0_image \<and>
   path_exists one_volume_files (companion ''data/b0.nii'' ''.bval'') \<and>
   path_exists one_volume_files (companion ''data/b0.nii'' ''.bvec'') \<and>
   np_loadtxt one_volume_files (companion ''data/b0.nii'' ''.bvec'') = Inr (Arr1 [0, 0, 0]) \<and>
   np_loadtxt one_volume_files (companion ''data/b0.nii'' ''.bval'') = Inr (Arr0 0) \<and>
   (\<exists>msg. DWI_init one_volume_files ''data/b0.nii'' = Inl (ValueError msg))"
proof -
  have paths: "companion ''data/b0.nii'' ''.bval'' = ''data/b0.bval''"
    "companion ''data/b0.nii'' ''.bvec'' = ''data/b0.bvec''"
    by (simp_all add: companion_def os_path_split_def os_path_splitext_def os_path_join_def
        rfind_def rstrip_sep_def)
  have host: "path_exists one_volume_files ''data/b0.nii''"
    "nib_load one_volume_files ''data/b0.nii'' = Inr b0_image"
    "dataobj b0_image = Inr ([1, 1, 1, 1], [10])"
    "path_exists one_volume_files ''data/b0.bval''"
    "path_exists one_volume_files ''data/b0.bvec''"
    "np_loadtxt one_volume_files ''data/b0.bvec'' = Inr (loadtxt_of_table [[0], [0], [0]])"
    "np_loadtxt one_volume_files ''data/b0.bval'' = Inr (loadtxt_of_table [[0]])"
    by (simp_all add: one_volume_files_def b0_image_def b0_loader_def)
  have "\<exists>msg. DWI_init one_volume_files ''data/b0.nii'' = Inl (ValueError msg)"
    by (rule one_volume_construction[of one_volume_files "''data/b0.nii''" b0_image
          "([1, 1, 1, 1], [10])" 0 0 0 0])
       (simp_all only: paths host)
  then show ?thesis
    using host by (simp add: paths one_volume_shapes)
qed

text \<open>
  C4 (the code does otherwise). For a path that is no file, the claim asks for a NotFound
  error. The assertion that should raise it is on a string literal and passes, and the
  construction ends in the \<^verbatim>\<open>print\<close> with an unbound local variable instead: here on
  the path \<^verbatim>\<open>missing.nii\<close> on a host with no files.
\<close>

theorem missing_file_unbound_local:
  "file_guard = Inr () \<and>
   DWI_init no_files ''missing.nii'' = Inl (UnboundLocalError ''fName'') \<and>
   DWI_init no_files ''missing.nii'' \<noteq> Inl AssertionError"
  by (simp add: DWI_init_def DWI_init_branches_def no_files_def file_guard_def py_assert_def
      truthy_str_def)

text \<open>
  C5. The guard for a missing companion file is an assertion on a string literal that is
  not empty, so its condition is true and the assertion passes: the guard raises nothing,
  whatever the input that reached it.
\<close>

theorem companion_guard_never_raises:
  "truthy_str ''Unable to locate BVAL or BVEC files'' \<and> bval_bvec_guard = Inr ()"
  by (simp add: bval_bvec_guard_def py_assert_def truthy_str_def)

text \<open>
  C10. When the image file exists and loads but a companion file is missing, the
  construction completes: the message naming the image is printed, and the instance
  holds the header and the voxel data and no gradient table.
\<close>

theorem missing_companion_completes:
  assumes "path_exists h imPath" "nib_load h imPath = Inr nii" "dataobj nii = Inr data"
    and "\<not> (path_exists h (companion imPath ''.bval'') \<and> path_exists h (companion imPath ''.bvec''))"
  shows "DWI_init h imPath =
     Inr (\<lparr>hdr = Some nii, img = Some data, grad = None\<rparr>,
          [''Image '' @ base_name imPath @ ''.nii loaded successfully''])"
proof -
  have "DWI_init_branches h imPath =
      Inr (\<lparr>hdr = Some nii, img = Some data, grad = None\<rparr>, Some (base_name imPath))"
    using assms(4) by (simp only: branches_loaded[OF assms(1-3)] if_False)
  then show ?thesis by (simp add: DWI_init_def)
qed

theorem missing_companion_completes_witness:
  "DWI_init scan_without_bval ''data/scan.nii'' =
     Inr (\<lparr>hdr = Some scan_image, img = Some ([1, 1, 1, 3], [10, 8, 5]), grad = None\<rparr>,
          [''Image scan.nii loaded successfully''])"
  using missing_companion_completes[of scan_without_bval "''data/scan.nii''" scan_image
      "([1, 1, 1, 3], [10, 8, 5])"]
  by (simp add: scan_without_bval_def scan_image_def companion_def base_name_def
      os_path_split_def os_path_splitext_def os_path_join_def rfind_def rstrip_sep_def)

section \<open>Claims about createTensorOrder\<close>

text \<open>
  C2. For order 2 the method returns the multiplicities \<open>[1, 2, 2, 1, 2, 1]\<close>, which sum
  to 9, and the six index pairs from \<open>(0, 0)\<close> to \<open>(2, 2)\<close> in this order, each element
  0, 1 or 2, no pair twice.
\<close>

theorem createTensorOrder_2:
  "\<exists>c i. createTensorOrder self 2 = (self, Inr (c, i)) \<and>
     c = [1, 2, 2, 1, 2, 1] \<and>
     i = [[0, 0], [0, 1], [0, 2], [1, 1], [1, 2], [2, 2]] \<and>
     sum_list c = 9 \<and> length i = 6 \<and> map length i = replicate 6 2 \<and>
     set (concat i) \<subseteq> {0, 1, 2} \<and> distinct i"
  by (simp add: createTensorOrder_def np_sub_def Let_def numeral_eq_Suc)

text \<open>
  C3. For order 4 the method returns the fifteen multiplicities below, which sum to 81,
  and the fifteen index quadruples from \<open>(0, 0, 0, 0)\<close> to \<open>(2, 2, 2, 2)\<close> in this
  order, each element 0, 1 or 2, no quadruple twice.
\<close>

theorem createTensorOrder_4:
  "\<exists>c i. createTensorOrder self 4 = (self, Inr (c, i)) \<and>
     c = [1, 4, 4, 6, 12, 6, 4, 12, 12, 4, 1, 4, 6, 4, 1] \<and>
     i = [[0, 0, 0, 0], [0, 0, 0, 1], [0, 0, 0, 2], [0, 0, 1, 1], [0, 0, 1, 2],
          [0, 0, 2, 2], [0, 1, 1, 1], [0, 1, 1, 2], [0, 1, 2, 2], [0, 2, 2, 2],
          [1, 1, 1, 1], [1, 1, 1, 2], [1, 1, 2, 2], [1, 2, 2, 2], [2, 2, 2, 2]] \<and>
     sum_list c = 81 \<and> length i = 15 \<and> map length i = replicate 15 4 \<and>
     set (concat i) \<subseteq> {0, 1, 2} \<and> distinct i"
  by (simp add: createTensorOrder_def np_sub_def Let_def numeral_eq_Suc)

text \<open>
  C8. The method is a function of the order alone: what it returns or raises does not
  depend on the instance, the instance is the same after the call, and a second call
  with the same order gives the same result again.
\<close>

theorem createTensorOrder_pure:
  "snd (createTensorOrder s1 order) = snd (createTensorOrder s2 order) \<and>
   fst (createTensorOrder s1 order) = s1 \<and>
   createTensorOrder (fst (createTensorOrder s1 order)) order = createTensorOrder s1 order"
  by (simp add: createTensorOrder_def Let_def)

text \<open>
  C9. The method raises exactly when the order is neither 2 nor 4: then no branch has
  assigned \<open>cnt\<close>, and the \<^verbatim>\<open>return\<close> fails on the unbound local variable.
\<close>

theorem createTensorOrder_raises_iff:
  "isl (snd (createTensorOrder self order)) = (order \<noteq> 2 \<and> order \<noteq> 4) \<and>
   (snd (createTensorOrder self order) = Inl (UnboundLocalError ''cnt'')) =
     (order \<noteq> 2 \<and> order \<noteq> 4)"
  by (simp add: createTensorOrder_def Let_def)

section \<open>Properties of the parser\<close>

lemmas parser_defs =
  parser_def help_action_def add_positional_def add_store_def add_store_true_def dest_of_def

lemma positionals_parser: "filter (\<lambda>a. option_strings a = []) parser = [add_positional ''dwi'']"
  by (simp add: parser_defs)

text \<open>An argument that is empty or does not start with a dash is a positional argument.\<close>

lemma parse_optional_positional:
  "arg = [] \<or> hd arg \<noteq> CHR ''-'' \<Longrightarrow> parse_optional acts arg = Inr None"
  by (auto simp add: parse_optional_def)

lemma not_dashes: "arg = [] \<or> hd arg \<noteq> CHR ''-'' \<Longrightarrow> arg \<noteq> ''--''"
  by auto

lemma classify_single:
  "arg = [] \<or> hd arg \<noteq> CHR ''-'' \<Longrightarrow> classify acts [arg] = Inr [TA arg]"
  by (simp add: parse_optional_positional not_dashes)

lemma consume_single:
  "arg \<noteq> ''--'' \<Longrightarrow>
     consume acts [add_positional d] [TA arg] ns [] = Inr ([], ns(d \<mapsto> PyStr arg), [])"
  by (simp add: match_one_def take_action_def get_values_def add_positional_def)

lemma parse_single:
  assumes "dwi = [] \<or> hd dwi \<noteq> CHR ''-''"
  shows "parse_args parser [dwi] = Inr ((defaults parser)(''dwi'' \<mapsto> PyStr dwi))"
  unfolding parse_args_def classify_single[OF assms] positionals_parser sum.case
    consume_single[OF not_dashes[OF assms]]
  by simp

lemma defaults_parser:
  "defaults parser ''output'' = Some PyNone"
  "defaults parser ''extent'' = Some (PyStr ''5,5,5'')"
  "defaults parser ''fit_constraints'' = Some (PyStr ''0,1,0'')"
  "defaults parser ''standard'' = Some (PyBool False)"
  "defaults parser ''denoise'' = Some (PyBool False)"
  "defaults parser ''eddy'' = Some (PyBool False)"
  "defaults parser ''b1correct'' = Some (PyBool False)"
  "defaults parser ''scaleb0median'' = Some (PyBool False)"
  "defaults parser ''smooth'' = Some (PyBool False)"
  "defaults parser ''DTI'' = Some (PyBool False)"
  "defaults parser ''DKI'' = Some (PyBool False)"
  "defaults parser ''WMTI'' = Some (PyBool False)"
  "defaults parser ''kcumulants'' = Some (PyBool False)"
  "defaults parser ''mask'' = Some (PyBool False)"
  "defaults parser ''rpe_none'' = Some (PyBool False)"
  by (simp_all add: defaults_def parser_defs)

lemma parse_empty: "parse_args parser [] = Inl (UsageError (Required [''dwi'']))"
  by (simp add: parse_args_def positionals_parser action_name_def add_positional_def)

lemma parse_help: "parse_args parser [''-h''] = Inl (SystemExit 0)"
  by (simp add: parse_args_def positionals_parser parse_optional_def lookup_option_def
      option_table_def parser_defs opt_plain_def take_action_def)

text \<open>
  Every way the parser fails is a usage error, but for the help action, which exits with
  status 0. This holds of any table of actions.
\<close>

lemma parse_optional_exit: "parse_optional acts s = Inl e \<Longrightarrow> parser_exit e"
  by (auto simp add: parse_optional_def Let_def split: if_splits option.splits prod.splits)

lemma classify_exit: "classify acts ss = Inl e \<Longrightarrow> parser_exit e"
  by (induction ss arbitrary: e) (auto split: if_splits sum.splits dest: parse_optional_exit)

lemma take_action_exit: "take_action a strs ns = Inl e \<Longrightarrow> parser_exit e"
  by (auto simp add: take_action_def split: action_kind.splits)

lemma take_actions_exit: "take_actions tuples ns = Inl e \<Longrightarrow> parser_exit e"
  by (induction tuples ns rule: take_actions.induct)
     (auto split: sum.splits dest: take_action_exit)

lemma opt_plain_exit: "opt_plain a ts = Inl e \<Longrightarrow> parser_exit e"
  by (auto simp add: opt_plain_def split: if_splits list.splits tok.splits)

lemma opt_explicit_exit: "opt_explicit acts a opt sep ex ts = Inl e \<Longrightarrow> parser_exit e"
proof (induction acts a opt sep ex ts rule: opt_explicit.induct)
  case (1 acts a opt sep e' ts)
  from "1.prems" show ?case
    apply (subst (asm) opt_explicit.simps)
    apply (auto split: if_splits option.splits sum.splits dest: opt_plain_exit "1.IH")
    done
qed

lemma consume_positionals_exit: "consume_positionals pend ts ns = Inl e \<Longrightarrow> parser_exit e"
  by (induction pend arbitrary: ts ns)
     (auto split: option.splits sum.splits dest: take_action_exit)

lemma opt_exit:
  "(case e of None \<Rightarrow> opt_plain act rest | Some ex \<Rightarrow> opt_explicit acts act opt sep ex rest) = Inl err
     \<Longrightarrow> parser_exit err"
  by (auto split: option.splits dest: opt_plain_exit opt_explicit_exit)

lemma consume_exit: "consume acts pend ts ns extras = Inl e \<Longrightarrow> parser_exit e"
proof (induction acts pend ts ns extras rule: consume.induct, goal_cases)
  case (1 acts pend ns extras)
  then show ?case by simp
next
  case (2 acts pend s a opt sep e' rest ns extras)
  note IH = "2"(1,2) and prem = "2"(3)
  show ?case
  proof (cases a)
    case None
    with IH(1) prem show ?thesis by simp
  next
    case (Some act)
    show ?thesis
    proof (cases "case e' of None \<Rightarrow> opt_plain act rest
                  | Some ex \<Rightarrow> opt_explicit acts act opt sep ex rest")
      case (Inl err)
      with Some prem opt_exit[OF Inl] show ?thesis by simp
    next
      case (Inr b)
      obtain tuples ex k where b: "b = (tuples, ex, k)" by (cases b) auto
      note opt = Inr[unfolded b]
      show ?thesis
      proof (cases "take_actions tuples ns")
        case (Inl err)
        with Some opt prem take_actions_exit[OF Inl] show ?thesis by simp
      next
        case (Inr ns')
        with Some opt prem IH(2)[OF Some opt refl refl Inr]
        show ?thesis by simp
      qed
    qed
  qed
next
  case (3 acts pend v rest ns extras)
  note IH = "3"(1,2) and prem = "3"(3)
  show ?case
  proof (cases "consume_positionals pend (TA v # rest) ns")
    case (Inl err)
    with prem consume_positionals_exit[OF Inl] show ?thesis by simp
  next
    case (Inr b)
    obtain pend' ns' k where b: "b = (pend', ns', k)" by (cases b) auto
    note pos = Inr[unfolded b]
    with prem IH(1)[OF pos refl refl] IH(2)[OF pos refl refl]
    show ?thesis by (auto split: if_splits)
  qed
next
  case (4 acts pend rest ns extras)
  note IH = "4"(1,2) and prem = "4"(3)
  show ?case
  proof (cases "consume_positionals pend (TD # rest) ns")
    case (Inl err)
    with prem consume_positionals_exit[OF Inl] show ?thesis by simp
  next
    case (Inr b)
    obtain pend' ns' k where b: "b = (pend', ns', k)" by (cases b) auto
    note pos = Inr[unfolded b]
    with prem IH(1)[OF pos refl refl] IH(2)[OF pos refl refl]
    show ?thesis by (auto split: if_splits)
  qed
qed

lemma parse_args_exit: "parse_args acts argv = Inl e \<Longrightarrow> parser_exit e"
  by (auto simp add: parse_args_def split: sum.splits if_splits dest: classify_exit consume_exit)

text \<open>
  An action never stores \<open>None\<close>, so once the dataset is taken from the argument strings
  it stays in the namespace; and the loop ends with the dataset pending or taken.
\<close>

lemma get_values_not_None: "get_values a strs \<noteq> PyNone"
  by (simp add: get_values_def Let_def split: list.splits)

lemma take_action_dataset:
  "take_action a strs ns = Inr ns' \<Longrightarrow> has_dataset ns \<Longrightarrow> has_dataset ns'"
  by (auto simp add: take_action_def get_values_not_None split: action_kind.splits)

lemma take_actions_dataset:
  "take_actions tuples ns = Inr ns' \<Longrightarrow> has_dataset ns \<Longrightarrow> has_dataset ns'"
proof (induction tuples ns arbitrary: ns' rule: take_actions.induct)
  case (1 ns)
  then show ?case by simp
next
  case (2 a strs r ns)
  from "2.prems"(1) obtain ns1 where a: "take_action a strs ns = Inr ns1"
    and r: "take_actions r ns1 = Inr ns'"
    by (auto split: sum.splits)
  show ?case
    by (rule "2.IH"[OF a r take_action_dataset[OF a "2.prems"(2)]])
qed

lemma take_actions_pending:
  "take_actions tuples ns = Inr ns' \<Longrightarrow> dataset_pending pend ns \<Longrightarrow> dataset_pending pend ns'"
  using take_actions_dataset by blast

lemma consume_positionals_pending:
  assumes "consume_positionals pend ts ns = Inr (pend', ns', k)" "dataset_pending pend ns"
  shows "dataset_pending pend' ns'"
proof (cases "pend = []")
  case True
  with assms show ?thesis by simp
next
  case False
  with assms(2) have p: "pend = [add_positional ''dwi'']" by simp
  show ?thesis
  proof (cases "match_one ts")
    case None
    with assms(1) p show ?thesis by simp
  next
    case (Some m)
    with assms(1) p show ?thesis
      by (auto simp add: take_action_def add_positional_def get_values_not_None split: sum.splits)
  qed
qed

lemma consume_pending:
  "consume acts pend ts ns extras = Inr (pend', ns', extras') \<Longrightarrow> dataset_pending pend ns \<Longrightarrow>
     dataset_pending pend' ns'"
proof (induction acts pend ts ns extras rule: consume.induct, goal_cases)
  case (1 acts pend ns extras)
  then show ?case by simp
next
  case (2 acts pend s a opt sep e' rest ns extras)
  note IH = "2"(1,2) and prems = "2"(3,4)
  show ?case
  proof (cases a)
    case None
    with IH(1) prems show ?thesis by simp
  next
    case (Some act)
    show ?thesis
    proof (cases "case e' of None \<Rightarrow> opt_plain act rest
                  | Some ex \<Rightarrow> opt_explicit acts act opt sep ex rest")
      case (Inl err)
      with Some prems show ?thesis by simp
    next
      case (Inr b)
      obtain tuples ex k where b: "b = (tuples, ex, k)" by (cases b) auto
      note opt = Inr[unfolded b]
      show ?thesis
      proof (cases "take_actions tuples ns")
        case (Inl err)
        with Some opt prems show ?thesis by simp
      next
        case (Inr ns1)
        have "consume acts pend (drop k rest) ns1 (extras @ ex) = Inr (pend', ns', extras')"
          using Some opt Inr prems(1) by simp
        then show ?thesis
          by (rule IH(2)[OF Some opt refl refl Inr])
             (rule take_actions_pending[OF Inr prems(2)])
      qed
    qed
  qed
next
  case (3 acts pend v rest ns extras)
  note IH = "3"(1,2) and prems = "3"(3,4)
  show ?case
  proof (cases "consume_positionals pend (TA v # rest) ns")
    case (Inl err)
    with prems show ?thesis by simp
  next
    case (Inr b)
    obtain pend1 ns1 k where b: "b = (pend1, ns1, k)" by (cases b) auto
    note pos = Inr[unfolded b]
    note inv = consume_positionals_pending[OF pos prems(2)]
    from pos inv prems(1) IH(1)[OF pos refl refl] IH(2)[OF pos refl refl]
    show ?thesis by (auto split: if_splits)
  qed
next
  case (4 acts pend rest ns extras)
  note IH = "4"(1,2) and prems = "4"(3,4)
  show ?case
  proof (cases "consume_positionals pend (TD # rest) ns")
    case (Inl err)
    with prems show ?thesis by simp
  next
    case (Inr b)
    obtain pend1 ns1 k where b: "b = (pend1, ns1, k)" by (cases b) auto
    note pos = Inr[unfolded b]
    note inv = consume_positionals_pending[OF pos prems(2)]
    from pos inv prems(1) IH(1)[OF pos refl refl] IH(2)[OF pos refl refl]
    show ?thesis by (auto split: if_splits)
  qed
qed

text \<open>A namespace that the module's parser returns has the dataset.\<close>

lemma parse_args_dataset:
  assumes "parse_args parser argv = Inr ns"
  shows "has_dataset ns"
proof -
  from assms obtain ts pend extras where
    c: "consume parser [add_positional ''dwi''] ts (defaults parser) [] = Inr (pend, ns, extras)"
    and p: "pend = []"
    by (auto simp add: parse_args_def positionals_parser split: sum.splits if_splits)
  from consume_pending[OF c] p show ?thesis by simp
qed

text \<open>
  An argument list of options only, none of them the help option, is a usage error: the
  dataset is required, or the value of the last option is missing.
\<close>

lemma option_string_shape:
  assumes "lookup_option parser s = Some a"
  shows "s \<noteq> [] \<and> hd s = CHR ''-'' \<and> s \<noteq> ''--''"
proof -
  from assms have "(s, a) \<in> set (option_table parser)"
    unfolding lookup_option_def by (rule map_of_SomeD)
  then show ?thesis
    by (auto simp add: option_table_def parser_defs)
qed

lemma parse_optional_exact:
  assumes "lookup_option parser s = Some a"
  shows "parse_optional parser s = Inr (Some (Some a, s, False, None))"
  using assms option_string_shape[OF assms] by (simp add: parse_optional_def)

lemma classify_option:
  assumes "lookup_option parser s = Some a"
  shows "classify parser (s # rest) =
     (case classify parser rest of Inl e \<Rightarrow> Inl e | Inr ts \<Rightarrow> Inr (TO s (Some a) s False None # ts))"
  using option_string_shape[OF assms]
  by (simp add: parse_optional_exact[OF assms] split: sum.splits)

lemma classify_value:
  assumes "v = [] \<or> hd v \<noteq> CHR ''-''"
  shows "classify parser (v # rest) =
     (case classify parser rest of Inl e \<Rightarrow> Inl e | Inr ts \<Rightarrow> Inr (TA v # ts))"
  using not_dashes[OF assms]
  by (simp add: parse_optional_positional[OF assms] split: sum.splits)

lemma options_only_consume:
  "options_only argv \<Longrightarrow>
     \<exists>ts. classify parser argv = Inr ts \<and>
       (\<forall>ns. (\<exists>name. consume parser pend ts ns [] = Inl (UsageError (ExpectedOneArgument name))) \<or>
             (\<exists>ns'. consume parser pend ts ns [] = Inr (pend, ns', [])))"
proof (induction argv rule: options_only.induct)
  case 1
  show ?case by simp
next
  case (2 s rest)
  from "2.prems" obtain a where a: "lookup_option parser s = Some a"
    by (auto split: option.splits)
  show ?case
  proof (cases "kind a")
    case Store
    show ?thesis
    proof (cases rest)
      case Nil
      have cl: "classify parser (s # rest) = Inr [TO s (Some a) s False None]"
        by (simp add: Nil classify_option[OF a] del: classify.simps(2))
      show ?thesis
        unfolding cl by (simp add: opt_plain_def Store)
    next
      case (Cons v rest')
      from "2.prems" a Store Cons have v: "v = [] \<or> hd v \<noteq> CHR ''-''" and r: "options_only rest'"
        by auto
      from "2.IH"(1)[OF a Store Cons r] obtain ts where
        ts: "classify parser rest' = Inr ts" and
        c: "\<forall>ns. (\<exists>name. consume parser pend ts ns [] = Inl (UsageError (ExpectedOneArgument name))) \<or>
             (\<exists>ns'. consume parser pend ts ns [] = Inr (pend, ns', []))"
        by blast
      have cl: "classify parser (s # rest) = Inr (TO s (Some a) s False None # TA v # ts)"
        by (simp add: Cons classify_option[OF a] classify_value[OF v] ts del: classify.simps(2))
      show ?thesis
        unfolding cl using c by (simp add: opt_plain_def take_action_def Store)
    qed
  next
    case StoreTrue
    from "2.prems" a StoreTrue have r: "options_only rest" by simp
    from "2.IH"(2)[OF a StoreTrue r] obtain ts where
      ts: "classify parser rest = Inr ts" and
      c: "\<forall>ns. (\<exists>name. consume parser pend ts ns [] = Inl (UsageError (ExpectedOneArgument name))) \<or>
           (\<exists>ns'. consume parser pend ts ns [] = Inr (pend, ns', []))"
      by blast
    have cl: "classify parser (s # rest) = Inr (TO s (Some a) s False None # ts)"
      by (simp add: classify_option[OF a] ts del: classify.simps(2))
    show ?thesis
      unfolding cl using c by (simp add: opt_plain_def take_action_def StoreTrue)
  next
    case Help
    with "2.prems" a show ?thesis by simp
  qed
qed

lemma options_only_usage_error:
  assumes "options_only argv"
  shows "parse_args parser argv = Inl (UsageError (Required [''dwi''])) \<or>
         (\<exists>name. parse_args parser argv = Inl (UsageError (ExpectedOneArgument name)))"
proof -
  from options_only_consume[OF assms, of "[add_positional ''dwi'']"] obtain ts where
    ts: "classify parser argv = Inr ts" and
    c: "(\<exists>name. consume parser [add_positional ''dwi''] ts (defaults parser) [] =
            Inl (UsageError (ExpectedOneArgument name))) \<or>
        (\<exists>ns'. consume parser [add_positional ''dwi''] ts (defaults parser) [] =
            Inr ([add_positional ''dwi''], ns', []))"
    by blast
  from c show ?thesis
    by (auto simp add: parse_args_def ts positionals_parser action_name_def add_positional_def)
qed

lemma options_only_examples:
  "options_only [''--denoise'']"
  "options_only [''-o'', ''out'', ''-s'', ''--extent'', ''3,3,3'']"
  "\<not> options_only [''-h'']"
  "\<not> options_only [''data/scan.nii'']"
  by (simp_all add: lookup_option_def option_table_def parser_defs)

text \<open>With both toolchains found, the module goes on to parse the arguments.\<close>

lemma pydesigner_parses:
  "which ''dwidenoise'' = Some dl \<Longrightarrow> which ''fsl'' = Some fl \<Longrightarrow>
     fst (pydesigner which argv) = [Which ''dwidenoise'', Which ''fsl'', ParseArgs argv]"
  by (simp add: pydesigner_def)

text \<open>A run with both toolchains on the search path: the install roots and the parsed dataset.\<close>

lemma pydesigner_example:
  "fst (pydesigner which_both [''data/scan.nii'']) =
     [Which ''dwidenoise'', Which ''fsl'', ParseArgs [''data/scan.nii'']] \<and>
   (\<exists>g. snd (pydesigner which_both [''data/scan.nii'']) = Inr g \<and>
        mrtrix3path g = ''/opt/mrtrix3/bin'' \<and> fslpath g = ''/usr/local/fsl/bin'' \<and>
        args g ''dwi'' = Some (PyStr ''data/scan.nii''))"
proof -
  have "parse_args parser [''data/scan.nii''] =
      Inr ((defaults parser)(''dwi'' \<mapsto> PyStr ''data/scan.nii''))"
    by (rule parse_single) simp
  then show ?thesis
    by (simp add: pydesigner_def which_both_def os_path_dirname_def rfind_def rstrip_sep_def)
qed

section \<open>Claims about pydesigner.py\<close>

text \<open>
  C6. When \<^verbatim>\<open>dwidenoise\<close> is not on the search path, or when \<^verbatim>\<open>fsl\<close> is not, the
  module ends with the exception that names the missing toolchain, and no argument
  parsing has taken place.
\<close>

theorem toolchain_missing_aborts_before_parsing:
  assumes "which ''dwidenoise'' = None \<or> which ''fsl'' = None"
  shows "snd (pydesigner which argv) \<in>
           {Inl (PyException mrtrix3_message), Inl (PyException fsl_message)} \<and>
         \<not> list_ex is_ParseArgs (fst (pydesigner which argv))"
  using assms by (auto simp add: pydesigner_def split: option.splits)

theorem toolchain_missing_aborts_before_parsing_witness:
  "snd (pydesigner which_no_mrtrix3 [''scan.nii'']) = Inl (PyException mrtrix3_message) \<and>
   \<not> list_ex is_ParseArgs (fst (pydesigner which_no_mrtrix3 [''scan.nii''])) \<and>
   snd (pydesigner which_no_fsl [''scan.nii'']) = Inl (PyException fsl_message) \<and>
   \<not> list_ex is_ParseArgs (fst (pydesigner which_no_fsl [''scan.nii'']))"
  using toolchain_missing_aborts_before_parsing[of which_no_mrtrix3 "[''scan.nii'']"]
    toolchain_missing_aborts_before_parsing[of which_no_fsl "[''scan.nii'']"]
  by (simp add: which_no_mrtrix3_def which_no_fsl_def pydesigner_def)

text \<open>
  What the claim says of the dataset argument alone, but for the output: parsing a
  single argument that is empty or does not start with a dash gives a namespace with that
  argument as the dataset, the extent \<^verbatim>\<open>5,5,5\<close>, the fit constraints \<^verbatim>\<open>0,1,0\<close> and
  every flag false; the parser leaves the output \<open>None\<close>. Parsing no argument at all is
  a usage error (the dataset is required), with exit status 2.
\<close>

lemma parse_dataset_only:
  assumes "dwi = [] \<or> hd dwi \<noteq> CHR ''-''"
  shows "\<exists>ns. parse_args parser [dwi] = Inr ns \<and>
           ns ''dwi'' = Some (PyStr dwi) \<and>
           ns ''output'' = Some PyNone \<and>
           ns ''extent'' = Some (PyStr ''5,5,5'') \<and>
           ns ''fit_constraints'' = Some (PyStr ''0,1,0'') \<and>
           map ns [''standard'', ''denoise'', ''eddy'', ''b1correct'', ''scaleb0median'', ''smooth'',
                   ''DTI'', ''DKI'', ''WMTI'', ''kcumulants'', ''mask'', ''rpe_none'']
             = replicate 12 (Some (PyBool False)) \<and>
           parse_args parser [] = Inl (UsageError (Required [''dwi''])) \<and>
           exit_status (UsageError (Required [''dwi''])) = 2"
  by (simp add: parse_single[OF assms] defaults_parser parse_empty numeral_eq_Suc)

text \<open>
  More generally, an argument list of options only has exit status 2; a request for help
  is no usage error: it prints the help and exits with status 0.
\<close>

lemma no_dataset_exit_status:
  assumes "options_only argv"
  shows "\<exists>e. parse_args parser argv = Inl e \<and> exit_status e = 2"
  using options_only_usage_error[OF assms] by auto

lemma help_exit_status:
  "parse_args parser [''-h''] = Inl (SystemExit 0) \<and> exit_status (SystemExit 0) = 0"
  by (simp add: parse_help)

text \<open>
  C7 (the code does otherwise). The claim has the output default to the directory of the
  dataset, as the help text of \<^verbatim>\<open>-o\<close> says (\<^verbatim>\<open>Default: same path as dwi.\<close>). The
  parser is given no default for it and the module ends with the parsing, so for the
  argument list of \<^verbatim>\<open>data/scan.nii\<close> alone the output is \<open>None\<close>, not the directory
  \<^verbatim>\<open>data\<close>.
\<close>

theorem dataset_only_output_unset:
  "\<exists>ns. parse_args parser [''data/scan.nii''] = Inr ns \<and>
     ns ''dwi'' = Some (PyStr ''data/scan.nii'') \<and>
     ns ''output'' = Some PyNone \<and>
     os_path_dirname ''data/scan.nii'' = ''data'' \<and>
     ns ''output'' \<noteq> Some (PyStr (os_path_dirname ''data/scan.nii''))"
proof -
  have "parse_args parser [''data/scan.nii''] =
      Inr ((defaults parser)(''dwi'' \<mapsto> PyStr ''data/scan.nii''))"
    by (rule parse_single) simp
  then show ?thesis
    by (simp add: defaults_parser os_path_dirname_def rfind_def rstrip_sep_def)
qed

end
